theory Spec2Isabelle
  imports Main "HOL-Library.AList"
begin

section \<open>Python strings\<close>

text \<open>
  A Python \<open>str\<close> is modelled as a \<open>string\<close>; a \<open>char\<close> stands for a code point
  below 256. \<open>str.strip()\<close> removes the characters for which \<open>str.isspace\<close> holds:
  in that range these are 0x09-0x0D, 0x1C-0x1F, the blank, 0x85 and 0xA0.
\<close>

definition is_space :: "char \<Rightarrow> bool" where
  "is_space c = (c \<in> set [CHR 0x09, CHR 0x0A, CHR 0x0B, CHR 0x0C, CHR 0x0D,
     CHR 0x1C, CHR 0x1D, CHR 0x1E, CHR 0x1F, CHR 0x20, CHR 0x85, CHR 0xA0])"

definition strip_where :: "(char \<Rightarrow> bool) \<Rightarrow> string \<Rightarrow> string" where
  "strip_where P s = rev (dropWhile P (rev (dropWhile P s)))"

definition py_strip :: "string \<Rightarrow> string" where
  \<comment> \<open>\<open>s.strip()\<close>\<close>
  "py_strip s = strip_where is_space s"

definition py_strip_char :: "char \<Rightarrow> string \<Rightarrow> string" where
  \<comment> \<open>\<open>s.strip(c)\<close> for a one-character argument: every leading and trailing \<open>c\<close> goes\<close>
  "py_strip_char c s = strip_where (\<lambda>x. x = c) s"

fun index_of :: "char \<Rightarrow> string \<Rightarrow> nat option" where
  "index_of c [] = None"
| "index_of c (x # xs) = (if x = c then Some 0 else map_option Suc (index_of c xs))"

definition py_find :: "char \<Rightarrow> string \<Rightarrow> int" where
  \<comment> \<open>\<open>s.find(c)\<close>: the first index of \<open>c\<close>, or -1\<close>
  "py_find c s = (case index_of c s of None \<Rightarrow> - 1 | Some i \<Rightarrow> int i)"

fun split_where :: "(char \<Rightarrow> bool) \<Rightarrow> string \<Rightarrow> string list" where
  "split_where P [] = [[]]"
| "split_where P (c # cs) =
     (if P c then [] # split_where P cs
      else (case split_where P cs of [] \<Rightarrow> [[c]] | p # ps \<Rightarrow> (c # p) # ps))"

definition py_split :: "char \<Rightarrow> string \<Rightarrow> string list" where
  \<comment> \<open>\<open>s.split(c)\<close> for a one-character separator: always one piece more than separators\<close>
  "py_split c s = split_where (\<lambda>x. x = c) s"

subsection \<open>Integers and text\<close>

definition is_digit :: "char \<Rightarrow> bool" where
  "is_digit c = (48 \<le> (of_char c :: nat) \<and> (of_char c :: nat) \<le> 57)"

definition digit_val :: "char \<Rightarrow> int" where
  "digit_val c = int (of_char c) - 48"

definition is_int_space :: "char \<Rightarrow> bool" where
  \<comment> \<open>what \<open>int()\<close> skips around the number: the C whitespace, and the two spaces above
      ASCII, which it first turns into blanks\<close>
  "is_int_space c = (c \<in> set [CHR 0x09, CHR 0x0A, CHR 0x0B, CHR 0x0C, CHR 0x0D,
     CHR 0x20, CHR 0x85, CHR 0xA0])"

definition digits_value :: "string \<Rightarrow> int option" where
  \<comment> \<open>decimal digits, in groups separated by single underscores\<close>
  "digits_value s =
     (let groups = py_split (CHR ''_'') s
      in if [] \<in> set groups then None
         else if list_all is_digit (concat groups)
           then Some (foldl (\<lambda>a c. 10 * a + digit_val c) 0 (concat groups))
         else None)"

definition py_int :: "string \<Rightarrow> int option" where
  \<comment> \<open>\<open>int(s)\<close> in base 10; \<open>None\<close> stands for the \<open>ValueError\<close>. The interpreter's
      optional bound on the number of digits is not modelled.\<close>
  "py_int s =
     (case strip_where is_int_space s of
        [] \<Rightarrow> None
      | c # r \<Rightarrow>
          if c = CHR ''-'' then map_option uminus (digits_value r)
          else if c = CHR ''+'' then digits_value r
          else digits_value (c # r))"

function str_digits :: "int \<Rightarrow> string" where
  "str_digits n = (if n < 10 then [char_of (48 + n)]
                   else str_digits (n div 10) @ [char_of (48 + n mod 10)])"
  by pat_completeness auto
termination
  by (relation "measure nat") auto

declare str_digits.simps [simp del]

definition str_int :: "int \<Rightarrow> string" where
  \<comment> \<open>\<open>str(i)\<close>\<close>
  "str_int i = (if i < 0 then CHR ''-'' # str_digits (- i) else str_digits i)"

definition fmt_str :: "string option \<Rightarrow> string" where
  \<comment> \<open>a \<open>str\<close>-or-\<open>None\<close> value inside an f-string\<close>
  "fmt_str v = (case v of None \<Rightarrow> ''None'' | Some s \<Rightarrow> s)"

definition fmt_int :: "int option \<Rightarrow> string" where
  \<comment> \<open>an \<open>int\<close>-or-\<open>None\<close> value inside an f-string\<close>
  "fmt_int v = (case v of None \<Rightarrow> ''None'' | Some i \<Rightarrow> str_int i)"

section \<open>Errors\<close>

datatype error =
    ValueError string
  | FileNotFoundError string
  | FileExistsError string
  | IsADirectoryError string
  | NotADirectoryError string
  | OSError string
  | TypeError string
  | RecursionError
  | EOFError
  | GenericException string

section \<open>The file system\<close>

text \<open>
  A tree of directories, regular files and symbolic links. A directory lists its entries
  in the order in which the system enumerates them. A link is a leaf holding the text of
  its target; the model does not resolve targets.

  The program is written for Windows (it starts \<open>DayZServer_x64.exe\<close>): both slashes
  separate components, and \<open>.\<close> and \<open>..\<close> are resolved on the text of the path before
  the tree is consulted. The root of the tree stands for the working directory, with the
  drives among its entries.
\<close>

datatype node = File string | Link string | Dir "(string \<times> node) list"

type_synonym path = "string list"

definition is_sep :: "char \<Rightarrow> bool" where
  "is_sep c = (c = CHR ''/'' \<or> c = CHR 0x5C)"

definition norm_step :: "path \<Rightarrow> string \<Rightarrow> path" where
  "norm_step acc c =
     (if c = [] \<or> c = ''.'' then acc else if c = ''..'' then butlast acc else acc @ [c])"

definition comps :: "string \<Rightarrow> path" where
  "comps p = foldl norm_step [] (split_where is_sep p)"

fun get :: "node \<Rightarrow> path \<Rightarrow> node option" where
  "get n [] = Some n"
| "get (Dir es) (c # cs) = (case map_of es c of None \<Rightarrow> None | Some n \<Rightarrow> get n cs)"
| "get (File v) (c # cs) = None"
| "get (Link t) (c # cs) = None"

definition lookup :: "node \<Rightarrow> string \<Rightarrow> node option" where
  \<comment> \<open>the empty path names nothing\<close>
  "lookup fs p = (if p = [] then None else get fs (comps p))"

definition path_exists :: "node \<Rightarrow> string \<Rightarrow> bool" where
  \<comment> \<open>\<open>os.path.exists(p)\<close>\<close>
  "path_exists fs p = (lookup fs p \<noteq> None)"

function readlines :: "string \<Rightarrow> string \<Rightarrow> string list" where
  "readlines acc [] = (if acc = [] then [] else [acc])"
| "readlines acc (c # cs) =
     (if c = CHR 0x0A then (acc @ [CHR 0x0A]) # readlines [] cs
      else if c = CHR 0x0D
        then (acc @ [CHR 0x0A]) # readlines [] (if cs \<noteq> [] \<and> hd cs = CHR 0x0A then tl cs else cs)
      else readlines (acc @ [c]) cs)"
  by pat_completeness auto
termination
  by (relation "measure (\<lambda>(acc, s). length s)") auto

definition open_read :: "node \<Rightarrow> string \<Rightarrow> error + string list" where
  \<comment> \<open>\<open>open(p, 'r')\<close> and the lines that iterating the file yields, each with its line end
      (text mode turns every kind of line end into a line feed)\<close>
  "open_read fs p =
     (case lookup fs p of
        None \<Rightarrow> Inl (FileNotFoundError p)
      | Some (File v) \<Rightarrow> Inr (readlines [] v)
      | Some (Dir es) \<Rightarrow> Inl (IsADirectoryError p)
      | Some (Link t) \<Rightarrow> Inl (OSError p))"

section \<open>Configuration\<close>

text \<open>
  The five module variables, all \<open>None\<close> when the module is loaded. The same record
  holds the five names of the same spelling that \<open>load_manager_config\<close> assigns: having
  no \<open>global\<close> statement, its assignments make them local to the function.
\<close>

record config =
  steamcmd_dir :: "string option"
  install_dir :: "string option"
  server_app_id :: "int option"
  game_app_id :: "int option"
  username :: "string option"

definition unset :: config where
  "unset = \<lparr>steamcmd_dir = None, install_dir = None, server_app_id = None,
            game_app_id = None, username = None\<rparr>"

definition manager_config :: string where "manager_config = ''manager.cfg''"
definition server_config :: string where "server_config = ''serverDZ.cfg''"
definition modslist_file :: string where "modslist_file = ''modslist.csv''"

definition remove_comments :: "string \<Rightarrow> string option" where
  \<comment> \<open>falls off its end, returning \<open>None\<close>, when there is no \<open>#\<close>\<close>
  "remove_comments line =
     (let comment_index = py_find (CHR ''#'') line
      in if comment_index \<ge> 0
         then (if comment_index = 0 then Some [] else Some (take (nat comment_index) line))
         else None)"

definition falsy :: "string option \<Rightarrow> bool" where
  \<comment> \<open>\<open>not line\<close>: \<open>None\<close> and the empty string\<close>
  "falsy v = (v = None \<or> v = Some [])"

definition try_cast_str_to_int :: "string \<Rightarrow> int option" where
  "try_cast_str_to_int v = py_int v"

definition check_global_vars :: "config \<Rightarrow> error + unit" where
  \<open>check_global_vars g =
     (if steamcmd_dir g = None
        then Inl (ValueError ''The 'steamcmd_dir' configuration variable is not set.'')
      else if install_dir g = None
        then Inl (ValueError ''The 'install_dir' configuration variable is not set.'')
      else if server_app_id g = None
        then Inl (ValueError
          ''The 'server_app_id' configuration variable is not set or is not a valid integer.'')
      else if game_app_id g = None
        then Inl (ValueError
          ''The 'game_app_id' configuration variable is not set or is not a valid integer.'')
      else if username g = None
        then Inl (ValueError ''The 'username' configuration variable is not set.'')
      else Inr ())\<close>

definition unpack2 :: "string list \<Rightarrow> error + string \<times> string" where
  \<comment> \<open>\<open>key, value = pieces\<close>\<close>
  "unpack2 pieces =
     (case pieces of
        [k, v] \<Rightarrow> Inr (k, v)
      | [] \<Rightarrow> Inl (ValueError ''not enough values to unpack (expected 2, got 0)'')
      | [k] \<Rightarrow> Inl (ValueError ''not enough values to unpack (expected 2, got 1)'')
      | _ \<Rightarrow> Inl (ValueError ''too many values to unpack (expected 2)''))"

definition config_line :: "config \<Rightarrow> string \<Rightarrow> error + config" where
  \<comment> \<open>one turn of the loop of \<open>load_manager_config\<close>, on the function's local names\<close>
  \<open>config_line locals line0 =
     (let line = remove_comments (py_strip line0)
      in if falsy line then Inr locals
         else case unpack2 (py_split (CHR ''='') (the line)) of
                Inl e \<Rightarrow> Inl e
              | Inr (k, v) \<Rightarrow>
                  (let key = py_strip k;
                       val = py_strip_char (CHR 0x22) (py_strip v)
                   in if key = ''steamcmd_dir'' then Inr (locals\<lparr>steamcmd_dir := Some val\<rparr>)
                      else if key = ''install_dir'' then Inr (locals\<lparr>install_dir := Some val\<rparr>)
                      else if key = ''server_app_id''
                        then Inr (locals\<lparr>server_app_id := try_cast_str_to_int val\<rparr>)
                      else if key = ''game_app_id''
                        then Inr (locals\<lparr>game_app_id := try_cast_str_to_int val\<rparr>)
                      else if key = ''username'' then Inr (locals\<lparr>username := Some val\<rparr>)
                      else Inr locals))\<close>

fun config_lines :: "config \<Rightarrow> string list \<Rightarrow> error + config" where
  "config_lines locals [] = Inr locals"
| "config_lines locals (line # rest) =
     (case config_line locals line of
        Inl e \<Rightarrow> Inl e
      | Inr locals' \<Rightarrow> config_lines locals' rest)"

definition load_manager_config :: "config \<Rightarrow> node \<Rightarrow> error + config" where
  \<comment> \<open>takes the module variables and returns them as the call leaves them; the loop
      writes its locals only, and \<open>check_global_vars\<close> reads the module variables\<close>
  "load_manager_config g fs =
     (case open_read fs manager_config of
        Inl e \<Rightarrow> Inl e
      | Inr lines \<Rightarrow>
          (case config_lines unset lines of
             Inl e \<Rightarrow> Inl e
           | Inr locals \<Rightarrow>
               (case check_global_vars g of
                  Inl e \<Rightarrow> Inl e
                | Inr u \<Rightarrow> Inr g)))"

section \<open>The mod list\<close>

text \<open>
  A \<open>dict\<close> keeps its keys in the order of their first insertion, and assigning to a
  key that is present replaces the value where it stands: an association list under
  \<open>AList.update\<close>.
\<close>

type_synonym modslist = "(int \<times> string) list"

definition is_name_char :: "char \<Rightarrow> bool" where
  \<comment> \<open>the class \<open>[a-zA-Z0-9_\-. ]\<close>\<close>
  "is_name_char c =
     ((97 \<le> (of_char c :: nat) \<and> (of_char c :: nat) \<le> 122)
      \<or> (65 \<le> (of_char c :: nat) \<and> (of_char c :: nat) \<le> 90)
      \<or> (48 \<le> (of_char c :: nat) \<and> (of_char c :: nat) \<le> 57)
      \<or> c \<in> set [CHR ''_'', CHR ''-'', CHR ''.'', CHR '' ''])"

definition is_valid_file_name :: "string \<Rightarrow> bool" where
  \<comment> \<open>\<open>re.match\<close> of \<open>^[a-zA-Z0-9_\-. ]+$\<close>; the \<open>$\<close> also matches before a line feed
      that ends the text\<close>
  "is_valid_file_name name =
     (let body = (if name \<noteq> [] \<and> last name = CHR 0x0A then butlast name else name)
      in body \<noteq> [] \<and> list_all is_name_char body)"

definition modslist_line :: "modslist \<Rightarrow> string \<Rightarrow> error + modslist" where
  \<comment> \<open>one turn of the loop of \<open>parse_modslist\<close>\<close>
  "modslist_line data line0 =
     (let line = remove_comments (py_strip line0)
      in if falsy line then Inr data
         else
           (let elements = py_split (CHR '','') (the line)
            in if length elements \<noteq> 2
               then Inl (ValueError (''Invalid line format: '' @ the line))
               else
                 (case py_int (py_strip (elements ! 0)) of
                    None \<Rightarrow> Inl (ValueError (''Invalid workshop ID: '' @ py_strip (elements ! 0)))
                  | Some key \<Rightarrow>
                      (let val = py_strip (elements ! 1)
                       in if \<not> is_valid_file_name val
                          then Inl (ValueError (''Invalid mod name: '' @ val
                                     @ '', must be a valid file name.''))
                          else Inr (AList.update key val data)))))"

fun modslist_lines :: "modslist \<Rightarrow> string list \<Rightarrow> error + modslist" where
  "modslist_lines data [] = Inr data"
| "modslist_lines data (line # rest) =
     (case modslist_line data line of
        Inl e \<Rightarrow> Inl e
      | Inr data' \<Rightarrow> modslist_lines data' rest)"

definition parse_modslist :: "node \<Rightarrow> string \<Rightarrow> error + modslist" where
  "parse_modslist fs file_path =
     (case open_read fs file_path of
        Inl e \<Rightarrow> Inl e
      | Inr lines \<Rightarrow> modslist_lines [] lines)"

section \<open>Changing the file system\<close>

text \<open>
  An operation of the system either fails, leaving the tree as it was, or returns the new
  tree. A step of the program returns the tree it has reached together with the exception
  it raised, if any: what was written before the exception stays written.
\<close>

fun put :: "path \<Rightarrow> node \<Rightarrow> node \<Rightarrow> node" where
  "put [] new old = new"
| "put (c # cs) new (Dir es) =
     (case map_of es c of
        None \<Rightarrow> (if cs = [] then Dir (AList.update c new es) else Dir es)
      | Some child \<Rightarrow> Dir (AList.update c (put cs new child) es))"
| "put (c # cs) new (File v) = File v"
| "put (c # cs) new (Link t) = Link t"

definition is_dir_node :: "node \<Rightarrow> bool" where
  "is_dir_node n = (case n of Dir es \<Rightarrow> True | _ \<Rightarrow> False)"

definition dir_at :: "node \<Rightarrow> path \<Rightarrow> bool" where
  "dir_at fs loc = (case get fs loc of Some n \<Rightarrow> is_dir_node n | None \<Rightarrow> False)"

definition isdir :: "node \<Rightarrow> string \<Rightarrow> bool" where
  \<comment> \<open>\<open>os.path.isdir(p)\<close>\<close>
  "isdir fs p = (case lookup fs p of Some n \<Rightarrow> is_dir_node n | None \<Rightarrow> False)"

definition path_join :: "string \<Rightarrow> string \<Rightarrow> string" where
  \<comment> \<open>\<open>os.path.join(a, b)\<close>\<close>
  "path_join a b =
     (if b \<noteq> [] \<and> is_sep (hd b) then b
      else if a = [] \<or> is_sep (last a) then a @ b
      else a @ ''/'' @ b)"

definition basename :: "string \<Rightarrow> string" where
  \<comment> \<open>\<open>os.path.basename(p)\<close>: what follows the last separator\<close>
  "basename p = last (split_where is_sep p)"

definition dirname :: "string \<Rightarrow> string" where
  \<comment> \<open>\<open>os.path.dirname(p)\<close>: what precedes the last separator, without the separators
      that end it unless it consists of separators\<close>
  "dirname p =
     (let head = take (length p - length (basename p)) p
      in if head \<noteq> [] \<and> \<not> list_all is_sep head then rev (dropWhile is_sep (rev head))
         else head)"

fun common_prefix :: "path \<Rightarrow> path \<Rightarrow> nat" where
  "common_prefix (x # xs) (y # ys) = (if x = y then Suc (common_prefix xs ys) else 0)"
| "common_prefix xs ys = 0"

fun intercalate :: "string \<Rightarrow> string list \<Rightarrow> string" where
  "intercalate sep [] = []"
| "intercalate sep [x] = x"
| "intercalate sep (x # y # ys) = x @ sep @ intercalate sep (y # ys)"

definition relpath :: "string \<Rightarrow> string \<Rightarrow> error + string" where
  \<comment> \<open>\<open>os.path.relpath(p, start)\<close>: both made absolute and normal, the common components
      dropped, one \<open>..\<close> for each component of \<open>start\<close> that is left\<close>
  "relpath p start =
     (if p = [] then Inl (ValueError ''no path specified'')
      else
        (let ps = comps p; ss = comps start; k = common_prefix ss ps;
             rel = replicate (length ss - k) ''..'' @ drop k ps
         in Inr (if rel = [] then ''.'' else intercalate ''/'' rel)))"

definition write_file :: "node \<Rightarrow> string \<Rightarrow> string \<Rightarrow> error + node" where
  \<comment> \<open>\<open>open(p, 'w')\<close> and one \<open>write\<close>: the file is made or replaced\<close>
  "write_file fs p text =
     (if p = [] then Inl (FileNotFoundError p)
      else
        (case get fs (comps p) of
           Some (Dir es) \<Rightarrow> Inl (IsADirectoryError p)
         | Some (Link t) \<Rightarrow> Inl (OSError p)
         | Some (File v) \<Rightarrow> Inr (put (comps p) (File text) fs)
         | None \<Rightarrow>
             (if dir_at fs (butlast (comps p)) then Inr (put (comps p) (File text) fs)
              else Inl (FileNotFoundError p))))"

definition os_symlink :: "string \<Rightarrow> string \<Rightarrow> node \<Rightarrow> error + node" where
  \<comment> \<open>\<open>os.symlink(src, dst)\<close>: refuses a name that is taken\<close>
  "os_symlink src dst fs =
     (if dst = [] then Inl (FileNotFoundError dst)
      else if get fs (comps dst) \<noteq> None then Inl (FileExistsError dst)
      else if dir_at fs (butlast (comps dst)) then Inr (put (comps dst) (Link src) fs)
      else Inl (FileNotFoundError dst))"

definition os_mkdir :: "node \<Rightarrow> path \<Rightarrow> error + node" where
  "os_mkdir fs loc =
     (if get fs loc \<noteq> None then Inl (FileExistsError (intercalate ''/'' loc))
      else if dir_at fs (butlast loc) then Inr (put loc (Dir []) fs)
      else Inl (FileNotFoundError (intercalate ''/'' loc)))"

function mkdirs :: "node \<Rightarrow> path \<Rightarrow> error + node" where
  "mkdirs fs loc =
     (case (if loc \<noteq> [] \<and> butlast loc \<noteq> [] \<and> get fs (butlast loc) = None
            then (case mkdirs fs (butlast loc) of
                    Inl (FileExistsError x) \<Rightarrow> Inr fs
                  | r \<Rightarrow> r)
            else Inr fs) of
        Inl e \<Rightarrow> Inl e
      | Inr fs1 \<Rightarrow>
          (case os_mkdir fs1 loc of
             Inr fs2 \<Rightarrow> Inr fs2
           | Inl e \<Rightarrow> (if dir_at fs1 loc then Inr fs1 else Inl e)))"
  by pat_completeness auto
termination
  by (relation "measure (\<lambda>(fs, loc). length loc)") auto

declare mkdirs.simps [simp del]

definition os_makedirs :: "node \<Rightarrow> string \<Rightarrow> error + node" where
  \<comment> \<open>\<open>os.makedirs(p, exist_ok=True)\<close>: the missing ancestors first, then the directory;
      a directory that is there already is accepted\<close>
  "os_makedirs fs p = (if p = [] then Inl (FileNotFoundError p) else mkdirs fs (comps p))"

definition copy2 :: "node \<Rightarrow> string \<Rightarrow> string \<Rightarrow> error + node" where
  \<comment> \<open>\<open>shutil.copy2(src, dst)\<close>: into \<open>dst\<close> when that is a directory, else onto it;
      a file that is there is replaced\<close>
  "copy2 fs src dst =
     (let dst' = (if isdir fs dst then path_join dst (basename src) else dst)
      in case lookup fs src of
           None \<Rightarrow> Inl (FileNotFoundError src)
         | Some (Dir es) \<Rightarrow> Inl (IsADirectoryError src)
         | Some (Link t) \<Rightarrow> Inl (OSError src)
         | Some (File v) \<Rightarrow>
             (if dst' \<noteq> [] \<and> comps src = comps dst' then Inl (OSError dst')
              else write_file fs dst' v))"

fun for_each :: "('a \<Rightarrow> 's \<Rightarrow> error option \<times> 's) \<Rightarrow> 'a list \<Rightarrow> 's \<Rightarrow> error option \<times> 's" where
  \<comment> \<open>a \<open>for\<close> loop: an exception in the body ends it\<close>
  "for_each body [] s = (None, s)"
| "for_each body (x # xs) s =
     (case body x s of
        (Some e, s') \<Rightarrow> (Some e, s')
      | (None, s') \<Rightarrow> for_each body xs s')"

definition files_of :: "(string \<times> node) list \<Rightarrow> string list" where
  "files_of es = map fst (filter (\<lambda>(name, n). \<not> is_dir_node n) es)"

definition dirs_of :: "(string \<times> node) list \<Rightarrow> string list" where
  "dirs_of es = map fst (filter (\<lambda>(name, n). is_dir_node n) es)"

text \<open>
  \<open>for root, dirs, files in os.walk(here): for file in files: body\<close>, top down. A
  directory is read when the walk reaches it, so the walk sees what the body has written
  by then; an entry that cannot be read as a directory yields nothing. The walk is a
  recursive generator, one level for each level of the tree: \<open>limit\<close> is the depth
  the interpreter allows, and \<open>RecursionError\<close> is raised beyond it.
\<close>

fun os_walk_files ::
  "nat \<Rightarrow> (string \<Rightarrow> string \<Rightarrow> node \<Rightarrow> error option \<times> node) \<Rightarrow> string \<Rightarrow> node
     \<Rightarrow> error option \<times> node" where
  "os_walk_files 0 body here fs = (Some RecursionError, fs)"
| "os_walk_files (Suc k) body here fs =
     (case lookup fs here of
        Some (Dir es) \<Rightarrow>
          (case for_each (body here) (files_of es) fs of
             (Some e, fs1) \<Rightarrow> (Some e, fs1)
           | (None, fs1) \<Rightarrow>
               for_each (\<lambda>d. os_walk_files k body (path_join here d)) (dirs_of es) fs1)
      | _ \<Rightarrow> (None, fs))"

definition copy_if_absent :: "string \<Rightarrow> string \<Rightarrow> string \<Rightarrow> string \<Rightarrow> node \<Rightarrow> error option \<times> node" where
  \<comment> \<open>the body of the inner loop of \<open>quick_copy_recursive\<close>\<close>
  "copy_if_absent source_dir destination_dir root file fs =
     (let source_file = path_join root file
      in case relpath source_file source_dir of
           Inl e \<Rightarrow> (Some e, fs)
         | Inr rel \<Rightarrow>
             (let destination_file = path_join destination_dir rel
              in if \<not> path_exists fs destination_file
                 then (case os_makedirs fs (dirname destination_file) of
                         Inl e \<Rightarrow> (Some e, fs)
                       | Inr fs1 \<Rightarrow>
                           (case copy2 fs1 source_file destination_file of
                              Inl e \<Rightarrow> (Some e, fs1)
                            | Inr fs2 \<Rightarrow> (None, fs2)))
                 else (None, fs)))"

definition quick_copy_recursive :: "nat \<Rightarrow> string \<Rightarrow> string \<Rightarrow> node \<Rightarrow> error option \<times> node" where
  "quick_copy_recursive limit source_dir destination_dir fs =
     os_walk_files limit (copy_if_absent source_dir destination_dir) source_dir fs"

section \<open>The steps of a run\<close>

datatype event = Print string | Traceback error | Prompt string | Run string

record world =
  disk :: node
  console :: "event list"

definition say :: "string \<Rightarrow> world \<Rightarrow> world" where
  \<comment> \<open>\<open>print(text)\<close>\<close>
  "say text w = w\<lparr>console := console w @ [Print text]\<rparr>"

datatype proc_result = Exited nat | NotStarted error

definition get_steamcmd_exe :: "config \<Rightarrow> string" where
  "get_steamcmd_exe g = fmt_str (steamcmd_dir g) @ ''/steamcmd.exe''"

definition get_server_exe :: "config \<Rightarrow> string" where
  "get_server_exe g = fmt_str (install_dir g) @ ''/DayZServer_x64.exe''"

definition steamcmd_postfix :: string where
  \<open>steamcmd_postfix =
     ''If you do not have SteamCMD already. Download it for Windows from here: https://steamcdn-a.akamaihd.net/client/installer/steamcmd.zip. DayZ Server is only available for Windows at the time of this program being made. Once it is installed put the file path for the directory at the top of the ''\<close>

definition default_server_cfg :: string where
  \<open>default_server_cfg = concat
    [''hostname = "SERVER";  // Server name\<newline>'',
     ''password = "";              // Password to connect to the server\<newline>'',
     ''passwordAdmin = "";         // Password to become a server admin\<newline>'',
     ''\<newline>'',
     ''enableWhitelist = 0;        // Enable/disable whitelist (value 0-1)\<newline>'',
     ''\<newline>'',
     ''maxPlayers = 60;            // Maximum amount of players\<newline>'',
     ''\<newline>'',
     ''verifySignatures = 2;       // Verifies .pbos against .bisign files. (only 2 is supported)\<newline>'',
     ''forceSameBuild = 1;         // When enabled, the server will allow the connection only to clients with the same .exe revision as the server (value 0-1)\<newline>'',
     ''\<newline>'',
     ''disableVoN = 0;             // Enable/disable voice over network (value 0-1)\<newline>'',
     ''vonCodecQuality = 20;        // Voice over network codec quality, the higher the better (values 0-30)\<newline>'',
     ''\<newline>'',
     ''disable3rdPerson=0;         // Toggles the 3rd person view for players (value 0-1)\<newline>'',
     ''disableCrosshair=0;         // Toggles the cross-hair (value 0-1)\<newline>'',
     ''\<newline>'',
     ''disablePersonalLight = 1;   // Disables personal light for all clients connected to the server\<newline>'',
     ''lightingConfig = 0;         // 0 for a brighter night setup, 1 for a darker night setup\<newline>'',
     ''\<newline>'',
     ''serverTime="SystemTime";    // Initial in-game time of the server. "SystemTime" means the local time of the machine. Another possibility is to set the time to some value in "YYYY/MM/DD/HH/MM" format, e.g., "2015/4/8/17/23".\<newline>'',
     ''serverTimeAcceleration=12;  // Accelerated Time (value 0-24)// This is a time multiplier for in-game time. In this case, the time would move 24 times faster than normal, so an entire day would pass in one hour.\<newline>'',
     ''serverNightTimeAcceleration=1;  // Accelerated Night Time - The numerical value being a multiplier (0.1-64) and also multiplied by serverTimeAcceleration value. Thus, in case it is set to 4 and serverTimeAcceleration is set to 2, night time would move 8 times faster than normal. An entire night would pass in 3 hours.\<newline>'',
     ''serverTimePersistent=0;     // Persistent Time (value 0-1)// The actual server time is saved to storage, so when active, the next server start will use the saved time value.\<newline>'',
     ''\<newline>'',
     ''guaranteedUpdates=1;        // Communication protocol used with the game server (use only number 1)\<newline>'',
     ''\<newline>'',
     ''loginQueueConcurrentPlayers=5;  // The number of players concurrently processed during the login process. Should prevent a massive performance drop during connection when a lot of people are connecting at the same time.\<newline>'',
     ''loginQueueMaxPlayers=500;       // The maximum number of players that can wait in the login queue\<newline>'',
     ''\<newline>'',
     ''instanceId = 1;             // DayZ server instance id, to identify the number of instances per box and their storage folders with persistence files\<newline>'',
     ''\<newline>'',
     ''storageAutoFix = 1;         // Checks if the persistence files are corrupted and replaces corrupted ones with empty ones (value 0-1)\<newline>'',
     ''\<newline>'',
     ''logFile = "serverconsole.log"\<newline>'',
     ''\<newline>'',
     ''\<newline>'',
     ''class Missions\<newline>'',
     ''{\<newline>'',
     [CHR 0x09] @ ''class DayZ\<newline>'',
     [CHR 0x09] @ ''{\<newline>'',
     [CHR 0x09] @ [CHR 0x09] @ ''template = "dayzOffline.chernarusplus"; // Mission to load on server startup. <MissionName>.<TerrainName>\<newline>'',
     [CHR 0x09] @ ''};\<newline>'',
     ''};\<newline>'']\<close>

definition default_modslist :: string where
  \<open>default_modslist = concat
    [''# To add a new Steam Workshop mod:\<newline>'',
     ''# Put a Steam Workshop ID and exact name on Steam Workshop seperated by a comma (whitespace ignored) all on a single line.\<newline>'',
     ''# If you want to add another mod do it on another line.\<newline>'',
     ''# Steam Workshop IDs can be found at the end of the Steam URL of the workshop item: https://steamcommunity.com/sharedfiles/filedetails/?id=2950280649.\<newline>'',
     ''# Note: the '#' character makes it so that the character and any character after it, on the same line, is ignored when the file is parsed.\<newline>'',
     ''# Example:\<newline>'',
     ''# 2950280649, DayZ-Rat # Remove the first '#' character on this line and you have a valid line for adding a workshop item.\<newline>'']\<close>

definition check_if_steamcmd_is_installed :: "config \<Rightarrow> node \<Rightarrow> error + unit" where
  \<comment> \<open>\<open>os.path.exists(None)\<close> is a \<open>TypeError\<close>\<close>
  "check_if_steamcmd_is_installed g fs =
     (case steamcmd_dir g of
        None \<Rightarrow> Inl (TypeError ''stat: path should be string, bytes, os.PathLike or integer, not NoneType'')
      | Some d \<Rightarrow>
          (if \<not> path_exists fs d
             then Inl (GenericException (''SteamCMD directory is missing: '' @ d @ ''. '' @ steamcmd_postfix))
           else if \<not> path_exists fs (get_steamcmd_exe g)
             then Inl (GenericException (''SteamCMD executable file is missing: '' @ get_steamcmd_exe g
                         @ ''. '' @ steamcmd_postfix))
           else Inr ()))"

definition create_if_missing_default_server_cfg :: "world \<Rightarrow> error option \<times> world" where
  "create_if_missing_default_server_cfg w =
     (case (if path_exists (disk w) server_config
            then (None, say (''Found server config file: '' @ server_config
                    @ ''. It can be modified to alter the server'' @ [CHR 0x27] @ ''s execution.'') w)
            else (let w1 = say ''Creating a server config from default template.''
                            (say (''Failed to find server config file: '' @ server_config) w)
                  in case write_file (disk w1) server_config default_server_cfg of
                       Inl e \<Rightarrow> (Some e, w1)
                     | Inr fs' \<Rightarrow> (None, w1\<lparr>disk := fs'\<rparr>))) of
        (Some e, w2) \<Rightarrow> (Some e, w2)
      | (None, w2) \<Rightarrow> (None, say ''\<newline>'' w2))"

definition create_if_missing_empty_modslist :: "world \<Rightarrow> error option \<times> world" where
  "create_if_missing_empty_modslist w =
     (case (if path_exists (disk w) modslist_file
            then (None, say (''Found modslist file: '' @ modslist_file
                    @ ''. It can be modified to add Steam workshop mods to the server.'') w)
            else (let w1 = say ''Creating a modslist from default template.''
                            (say (''Failed to find modslist file: '' @ modslist_file @ ''.'') w)
                  in case write_file (disk w1) modslist_file default_modslist of
                       Inl e \<Rightarrow> (Some e, w1)
                     | Inr fs' \<Rightarrow> (None, w1\<lparr>disk := fs'\<rparr>))) of
        (Some e, w2) \<Rightarrow> (Some e, w2)
      | (None, w2) \<Rightarrow> (None, say ''\<newline>'' w2))"

definition workshop_dir :: "config \<Rightarrow> string" where
  "workshop_dir g = fmt_str (steamcmd_dir g) @ ''/steamapps/workshop/content/''
     @ fmt_int (game_app_id g) @ ''/''"

definition item_dir :: "config \<Rightarrow> int \<Rightarrow> string" where
  "item_dir g workshop_id = workshop_dir g @ ''/'' @ str_int workshop_id"

definition server_keys_dir :: "config \<Rightarrow> string" where
  "server_keys_dir g = fmt_str (install_dir g) @ ''/keys''"

definition install_item :: "nat \<Rightarrow> config \<Rightarrow> int \<times> string \<Rightarrow> world \<Rightarrow> error option \<times> world" where
  \<comment> \<open>the body of the loop of \<open>install_mods\<close>\<close>
  "install_item limit g item w =
     (case item of (workshop_id, mod_name) \<Rightarrow>
        (let w1 = say (''Attempting to install item: '' @ str_int workshop_id
                       @ '' ('' @ mod_name @ '')'') w
         in if \<not> path_exists (disk w1) (item_dir g workshop_id) then (None, w1)
            else
              (let server_item_dir = fmt_str (install_dir g) @ ''/@'' @ mod_name
               in case os_symlink (item_dir g workshop_id) server_item_dir (disk w1) of
                    Inl e \<Rightarrow> (Some e, w1)
                  | Inr fs1 \<Rightarrow>
                      (let item_keys_dir = item_dir g workshop_id @ ''/keys''
                       in if path_exists fs1 item_keys_dir
                          then (case quick_copy_recursive limit item_keys_dir (server_keys_dir g) fs1 of
                                  (r, fs2) \<Rightarrow> (r, w1\<lparr>disk := fs2\<rparr>))
                          else (None, w1\<lparr>disk := fs1\<rparr>)))))"

definition install_mods :: "nat \<Rightarrow> config \<Rightarrow> modslist \<Rightarrow> world \<Rightarrow> error option \<times> world" where
  "install_mods limit g modslist w =
     (case for_each (install_item limit g) modslist w of
        (Some e, w1) \<Rightarrow> (Some e, w1)
      | (None, w1) \<Rightarrow> (None, say ''\<newline>\<newline>'' w1))"

fun mods_loop :: "bool \<Rightarrow> string \<Rightarrow> modslist \<Rightarrow> string" where
  \<comment> \<open>the loop of \<open>run_server\<close> over its two variables; nothing assigns to \<open>first\<close>\<close>
  "mods_loop first mods [] = mods"
| "mods_loop first mods ((workshop_id, mod_name) # rest) =
     mods_loop first (if first then mods @ ''@'' @ mod_name else mods @ '';@'' @ mod_name) rest"

definition subprocess_run :: "(string \<Rightarrow> proc_result) \<Rightarrow> string \<Rightarrow> world \<Rightarrow> proc_result \<times> world" where
  \<comment> \<open>the command is started; how it ends is the environment's\<close>
  "subprocess_run env cmd w = (env cmd, w\<lparr>console := console w @ [Run cmd]\<rparr>)"

definition run_server :: "(string \<Rightarrow> proc_result) \<Rightarrow> config \<Rightarrow> modslist \<Rightarrow> world \<Rightarrow> error option \<times> world" where
  "run_server env g modslist w =
     (let run_command = get_server_exe g @ '' -config=serverDZ.cfg'';
          (run_command, w1) =
            (if length modslist > 0
             then (let mods = mods_loop True [] modslist
                   in (run_command @ '' '' @ [CHR 0x22] @ ''-mod='' @ mods @ [CHR 0x22],
                       say (''Attempting to run server using the config: '' @ [CHR 0x27]
                            @ server_config @ [CHR 0x27] @ '' and mods: '' @ [CHR 0x27] @ mods
                            @ [CHR 0x27] @ ''\<newline>\<newline>'') w))
             else (run_command,
                   say (''Attempting to run server using the config: '' @ [CHR 0x27]
                        @ server_config @ [CHR 0x27] @ ''\<newline>\<newline>'') w))
      in case subprocess_run env run_command w1 of
           (Exited status, w2) \<Rightarrow>
             (if status = 0 then (None, w2)
              else (None, say (''Game error Command '' @ [CHR 0x27] @ run_command @ [CHR 0x27]
                               @ '' returned non-zero exit status '' @ str_int (int status) @ ''.'') w2))
         | (NotStarted e, w2) \<Rightarrow> (Some e, w2))"

definition main_try :: "nat \<Rightarrow> (string \<Rightarrow> proc_result) \<Rightarrow> config \<Rightarrow> world \<Rightarrow> error option \<times> world" where
  \<comment> \<open>the body of the \<open>try\<close> of \<open>main\<close>\<close>
  "main_try limit env g w =
     (case load_manager_config g (disk w) of
        Inl e \<Rightarrow> (Some e, w)
      | Inr g1 \<Rightarrow>
     (case check_if_steamcmd_is_installed g1 (disk w) of
        Inl e \<Rightarrow> (Some e, w)
      | Inr u \<Rightarrow>
     (case create_if_missing_default_server_cfg w of
        (Some e, w1) \<Rightarrow> (Some e, w1)
      | (None, w1) \<Rightarrow>
     (case create_if_missing_empty_modslist w1 of
        (Some e, w2) \<Rightarrow> (Some e, w2)
      | (None, w2) \<Rightarrow>
     (case parse_modslist (disk w2) ''./modslist.txt'' of
        Inl e \<Rightarrow> (Some e, w2)
      | Inr modslist \<Rightarrow>
     (case (if length modslist > 0 then install_mods limit g1 modslist w2 else (None, w2)) of
        (Some e, w3) \<Rightarrow> (Some e, w3)
      | (None, w3) \<Rightarrow> run_server env g1 modslist w3))))))"

definition report :: "error \<Rightarrow> world \<Rightarrow> world" where
  \<comment> \<open>the \<open>except Exception\<close> block of \<open>main\<close>; every exception of this model is an
      \<open>Exception\<close>\<close>
  "report e w =
     w\<lparr>console := console w @ [Print ''\<newline>\<newline>An exception occurred:'', Traceback e]\<rparr>"

definition py_input :: "string \<Rightarrow> string list \<Rightarrow> world \<Rightarrow> (error + string) \<times> world" where
  \<comment> \<open>\<open>input(prompt)\<close>: the prompt is written, then a line is read; \<open>keys\<close> are the
      lines waiting on standard input, and at their end the call raises \<open>EOFError\<close>\<close>
  "py_input prompt keys w =
     ((case keys of [] \<Rightarrow> Inl EOFError | line # rest \<Rightarrow> Inr line),
      w\<lparr>console := console w @ [Prompt prompt]\<rparr>)"

definition main ::
  "nat \<Rightarrow> (string \<Rightarrow> proc_result) \<Rightarrow> string list \<Rightarrow> config \<Rightarrow> world \<Rightarrow> error option \<times> world" where
  \<comment> \<open>the exception that leaves \<open>main\<close>, if any, and the world it leaves; the final
      \<open>input\<close> stands after the \<open>try\<close> statement, so nothing catches what it raises\<close>
  "main limit env keys g w =
     (let w1 = (case main_try limit env g w of
                  (Some e, w') \<Rightarrow> report e w'
                | (None, w') \<Rightarrow> w')
      in case py_input ''\<newline>\<newline>Press Enter to exit...'' keys w1 of
           (Inl e, w2) \<Rightarrow> (Some e, w2)
         | (Inr line, w2) \<Rightarrow> (None, w2))"


section \<open>What a copy leaves alone\<close>

text \<open>
  Two relations between the tree before and the tree after, for the proofs below. Under
  \<open>keeps\<close> every place that held something still holds something of the same kind: a
  file with the same contents, a link with the same target, a directory a directory.
  Under \<open>adds_dirs\<close>, besides, no file is new.
\<close>

definition same_kind :: "node \<Rightarrow> node \<Rightarrow> bool" where
  "same_kind n n' = (case n of File v \<Rightarrow> n' = File v | Link t \<Rightarrow> n' = Link t | Dir es \<Rightarrow> is_dir_node n')"

definition keeps :: "node \<Rightarrow> node \<Rightarrow> bool" where
  "keeps fs fs' = (\<forall>loc n. get fs loc = Some n \<longrightarrow> (\<exists>n'. get fs' loc = Some n' \<and> same_kind n n'))"

definition adds_dirs :: "node \<Rightarrow> node \<Rightarrow> bool" where
  "adds_dirs fs fs' = (keeps fs fs' \<and> (\<forall>loc v. get fs' loc = Some (File v) \<longrightarrow> get fs loc = Some (File v)))"

section \<open>Example inputs\<close>

definition launched :: "world \<Rightarrow> string list" where
  \<comment> \<open>the commands a run has started\<close>
  "launched w = concat (map (\<lambda>ev. case ev of Run cmd \<Rightarrow> [cmd] | _ \<Rightarrow> []) (console w))"

definition example_config :: config where
  "example_config = \<lparr>steamcmd_dir = Some ''C:/tools'', install_dir = Some ''C:/server'',
     server_app_id = Some 223350, game_app_id = Some 221100, username = Some ''bob''\<rparr>"

definition five_lines :: string where
  \<open>five_lines = concat
    [''steamcmd_dir = "C:/tools"\<newline>'',
     ''install_dir = "C:/server"\<newline>'',
     ''server_app_id = 223350\<newline>'',
     ''game_app_id = 221100\<newline>'',
     ''username = "bob"\<newline>'']\<close>

definition five_lines_commented :: string where
  \<open>five_lines_commented = concat
    [''steamcmd_dir = "C:/tools" # the tool\<newline>'',
     ''install_dir = "C:/server" # the server\<newline>'',
     ''server_app_id = 223350 #\<newline>'',
     ''game_app_id = 221100 #\<newline>'',
     ''username = "bob" #\<newline>'']\<close>

definition plain_modslist :: string where
  \<open>plain_modslist = concat
    [''2950280649, DayZ-Rat\<newline>'',
     ''abc, Foo\<newline>'']\<close>

definition workshop_tree :: node where
  \<comment> \<open>item 1 is fetched and carries two keys; the server has a key \<open>A.bikey\<close> of its own\<close>
  "workshop_tree =
     Dir [(''C:'',
           Dir [(''tools'',
                 Dir [(''steamcmd.exe'', File ''exe''),
                      (''steamapps'', Dir [(''workshop'', Dir [(''content'', Dir [(''221100'',
                         Dir [(''1'', Dir [(''keys'',
                            Dir [(''A.bikey'', File ''new key''),
                                 (''more'', Dir [(''B.bikey'', File ''other key'')])])])])])])])]),
                (''server'', Dir [(''keys'', Dir [(''A.bikey'', File ''old key'')])])]),
          (''manager.cfg'', File five_lines_commented),
          (''serverDZ.cfg'', File ''hostname = x;'')]"





definition no_process :: "string \<Rightarrow> proc_result" where
  "no_process cmd = Exited 0"

section \<open>Properties of the two parsers\<close>

lemma index_of_absent: "c \<notin> set s \<Longrightarrow> index_of c s = None"
  by (induction s) auto

lemma remove_comments_absent: "CHR ''#'' \<notin> set line \<Longrightarrow> remove_comments line = None"
  by (simp add: remove_comments_def py_find_def index_of_absent)

lemma set_strip_where: "set (strip_where P s) \<subseteq> set s"
proof -
  have "set (strip_where P s) \<subseteq> set (dropWhile P s)"
    unfolding strip_where_def using set_dropWhileD [of _ P "rev (dropWhile P s)"] by auto
  also have "\<dots> \<subseteq> set s"
    using set_dropWhileD [of _ P s] by auto
  finally show ?thesis .
qed

lemma strip_absent: "c \<notin> set line \<Longrightarrow> c \<notin> set (py_strip line)"
  using set_strip_where [of is_space line] by (auto simp: py_strip_def)

lemma config_line_absent: "CHR ''#'' \<notin> set line \<Longrightarrow> config_line locals line = Inr locals"
  by (simp add: config_line_def remove_comments_absent strip_absent falsy_def)

lemma modslist_line_absent: "CHR ''#'' \<notin> set line \<Longrightarrow> modslist_line data line = Inr data"
  by (simp add: modslist_line_def remove_comments_absent strip_absent falsy_def)

lemma config_lines_filter:
  "config_lines locals (filter (\<lambda>l. CHR ''#'' \<in> set l) lines) = config_lines locals lines"
proof (induction lines arbitrary: locals)
  case Nil
  show ?case by simp
next
  case (Cons l lines)
  show ?case
  proof (cases "CHR ''#'' \<in> set l")
    case True
    then show ?thesis using Cons.IH by (simp split: sum.splits)
  next
    case False
    then show ?thesis using Cons.IH by (simp add: config_line_absent)
  qed
qed

lemma modslist_lines_filter:
  "modslist_lines data (filter (\<lambda>l. CHR ''#'' \<in> set l) lines) = modslist_lines data lines"
proof (induction lines arbitrary: data)
  case Nil
  show ?case by simp
next
  case (Cons l lines)
  show ?case
  proof (cases "CHR ''#'' \<in> set l")
    case True
    then show ?thesis using Cons.IH by (simp split: sum.splits)
  next
    case False
    then show ?thesis using Cons.IH by (simp add: modslist_line_absent)
  qed
qed

text \<open>
  C9. A line without \<open>#\<close> makes \<open>remove_comments\<close> return \<open>None\<close>, not the line. Both
  parsers therefore pass over every such line: each gives the same result on a file as
  on the file's lines that contain a \<open>#\<close>, so only those lines can set a configuration
  field or add a mod entry.
\<close>

theorem comment_free_lines_are_skipped:
  "(CHR ''#'' \<notin> set line \<longrightarrow> remove_comments line = None)
   \<and> config_lines locals (filter (\<lambda>l. CHR ''#'' \<in> set l) lines) = config_lines locals lines
   \<and> modslist_lines data (filter (\<lambda>l. CHR ''#'' \<in> set l) lines) = modslist_lines data lines"
  by (simp add: remove_comments_absent config_lines_filter modslist_lines_filter)

theorem comment_free_lines_are_skipped_witness:
  "CHR ''#'' \<notin> set ''username = bob'' \<and> remove_comments ''username = bob'' = None"
  using comment_free_lines_are_skipped [of "''username = bob''" unset "[]" "[]"] by simp

text \<open>
  C10. Whatever the file holds, \<open>load_manager_config\<close> raises. The loop assigns to the
  function's own names, so the module variables are as they were, all \<open>None\<close>, when
  \<open>check_global_vars\<close> reads them, and its first check, of the tool directory, fails. When
  the loop itself does not raise (it does on a line that has text before its \<open>#\<close>
  without exactly one \<open>=\<close>), that first check is the error of the call.
\<close>

theorem load_manager_config_always_raises:
  \<open>(\<exists>e. load_manager_config unset fs = Inl e)
   \<and> check_global_vars unset
       = Inl (ValueError ''The 'steamcmd_dir' configuration variable is not set.'')
   \<and> (open_read fs manager_config = Inr lines \<and> config_lines unset lines = Inr locals
        \<longrightarrow> load_manager_config unset fs
            = Inl (ValueError ''The 'steamcmd_dir' configuration variable is not set.''))\<close>
proof -
  have c: \<open>check_global_vars unset
           = Inl (ValueError ''The 'steamcmd_dir' configuration variable is not set.'')\<close>
    by (simp add: check_global_vars_def unset_def)
  have "\<exists>e. load_manager_config unset fs = Inl e"
    unfolding load_manager_config_def c by (simp split: sum.splits)
  moreover have \<open>open_read fs manager_config = Inr lines \<and> config_lines unset lines = Inr locals
        \<longrightarrow> load_manager_config unset fs
            = Inl (ValueError ''The 'steamcmd_dir' configuration variable is not set.'')\<close>
    unfolding load_manager_config_def c by simp
  ultimately show ?thesis using c by blast
qed

theorem load_manager_config_always_raises_witness:
  \<open>open_read workshop_tree manager_config = Inr (readlines [] five_lines_commented)
   \<and> config_lines unset (readlines [] five_lines_commented) = Inr example_config
   \<and> load_manager_config unset workshop_tree
       = Inl (ValueError ''The 'steamcmd_dir' configuration variable is not set.'')\<close>
proof -
  have h1: "open_read workshop_tree manager_config = Inr (readlines [] five_lines_commented)"
    by code_simp
  have h2: "config_lines unset (readlines [] five_lines_commented) = Inr example_config"
    by code_simp
  show ?thesis
    using load_manager_config_always_raises
            [of workshop_tree "readlines [] five_lines_commented" example_config] h1 h2
    by blast
qed

text \<open>
  C1. On the five lines of the scenario \<open>load_manager_config\<close> does not yield the
  configuration: none of the lines has a \<open>#\<close>, so each is skipped, and the call ends in
  the error of the first check.
\<close>

theorem five_lines_are_rejected:
  \<open>load_manager_config unset (Dir [(manager_config, File five_lines)])
     = Inl (ValueError ''The 'steamcmd_dir' configuration variable is not set.'')\<close>
  by code_simp

text \<open>
  C2. A mod list of one well-formed line and one line with a bad identifier, neither with
  a \<open>#\<close>, parses to the empty mapping: no entry for the first, no error for the second.
\<close>

theorem plain_modslist_parses_to_nothing:
  "parse_modslist (Dir [(''modslist.txt'', File plain_modslist)]) ''./modslist.txt'' = Inr []"
  by code_simp

text \<open>
  C5. With two mods the \<open>-mod\<close> argument is \<open>@A@B\<close>: the tokens follow each other with
  no semicolon between them.
\<close>

theorem two_mods_are_not_separated:
  \<open>launched (snd (run_server no_process example_config [(1, ''A''), (2, ''B'')]
                     \<lparr>disk = workshop_tree, console = []\<rparr>))
     = [''C:/server/DayZServer_x64.exe -config=serverDZ.cfg "-mod=@A@B"'']\<close>
  by code_simp

text \<open>
  C3. The first installation of item 1 succeeds; the second, on the tree the first has
  left and with the sources unchanged, raises \<open>FileExistsError\<close> at the link.
\<close>

theorem second_install_raises:
  "fst (install_mods 10 example_config [(1, ''A'')] \<lparr>disk = workshop_tree, console = []\<rparr>) = None
   \<and> fst (install_mods 10 example_config [(1, ''A'')]
            (snd (install_mods 10 example_config [(1, ''A'')]
                    \<lparr>disk = workshop_tree, console = []\<rparr>)))
       = Some (FileExistsError ''C:/server/@A'')"
  by code_simp

text \<open>
  C4. On a tree without \<open>modslist.txt\<close> the run starts no server. As the module is
  loaded, the run ends at the configuration. With the module variables set beforehand it
  gets further: it writes the template to \<open>modslist.csv\<close>, opens \<open>./modslist.txt\<close>,
  and ends in \<open>FileNotFoundError\<close>.
\<close>

theorem absent_modslist_ends_the_run:
  \<open>\<not> path_exists workshop_tree ''./modslist.txt''
   \<and> launched (snd (main 10 no_process [[]] unset \<lparr>disk = workshop_tree, console = []\<rparr>)) = []
   \<and> launched (snd (main 10 no_process [[]] example_config \<lparr>disk = workshop_tree, console = []\<rparr>)) = []
   \<and> Traceback (FileNotFoundError ''./modslist.txt'')
       \<in> set (console (snd (main 10 no_process [[]] example_config
                               \<lparr>disk = workshop_tree, console = []\<rparr>)))
   \<and> path_exists (disk (snd (main 10 no_process [[]] example_config
                               \<lparr>disk = workshop_tree, console = []\<rparr>))) ''modslist.csv''\<close>
  by code_simp




lemma write_into_root:
  assumes "dir_at fs []" and "\<not> path_exists fs p" and "p \<noteq> []" and "comps p = [c]"
  shows "\<exists>fs'. write_file fs p t = Inr fs' \<and> dir_at fs' []"
proof -
  obtain es where es: "fs = Dir es"
    using assms(1) by (cases fs) (simp_all add: dir_at_def is_dir_node_def)
  have "get fs (comps p) = None"
    using assms(2,3) by (simp add: path_exists_def lookup_def)
  then have "write_file fs p t = Inr (put [c] (File t) fs)"
    using assms by (simp add: write_file_def)
  moreover have "dir_at (put [c] (File t) fs) []"
    using es by (simp add: dir_at_def is_dir_node_def split: option.splits)
  ultimately show ?thesis by blast
qed

lemma templates_do_not_raise:
  assumes "load_manager_config g (disk w) = Inr g1"
  shows "fst (create_if_missing_default_server_cfg w) = None
         \<and> fst (create_if_missing_empty_modslist (snd (create_if_missing_default_server_cfg w)))
             = None"
proof -
  have n1: "comps server_config = [server_config]" "server_config \<noteq> []"
    by code_simp+
  have n2: "comps modslist_file = [modslist_file]" "modslist_file \<noteq> []"
    by code_simp+
  have "comps manager_config = [manager_config]"
    by code_simp
  moreover obtain v where "lookup (disk w) manager_config = Some (File v)"
    using assms unfolding load_manager_config_def open_read_def
    by (auto split: option.splits node.splits sum.splits)
  ultimately have root: "dir_at (disk w) []"
    by (cases "disk w") (auto simp: lookup_def dir_at_def is_dir_node_def split: if_splits)
  have say_disk: "disk (say t x) = disk x" for t x
    by (simp add: say_def)
  define w1 where "w1 = snd (create_if_missing_default_server_cfg w)"
  have first: "fst (create_if_missing_default_server_cfg w) = None \<and> dir_at (disk w1) []"
  proof (cases "path_exists (disk w) server_config")
    case True
    then show ?thesis
      using root by (simp add: w1_def create_if_missing_default_server_cfg_def say_disk)
  next
    case False
    then obtain fs' where "write_file (disk w) server_config default_server_cfg = Inr fs'"
      "dir_at fs' []"
      using write_into_root [OF root _ n1(2) n1(1)] by blast
    then show ?thesis
      using False
      by (simp add: w1_def create_if_missing_default_server_cfg_def say_disk Let_def)
  qed
  have "fst (create_if_missing_empty_modslist w1) = None"
  proof (cases "path_exists (disk w1) modslist_file")
    case True
    then show ?thesis
      by (simp add: create_if_missing_empty_modslist_def)
  next
    case False
    then obtain fs' where "write_file (disk w1) modslist_file default_modslist = Inr fs'"
      using write_into_root [OF _ _ n2(2) n2(1)] first by blast
    then show ?thesis
      using False
      by (simp add: create_if_missing_empty_modslist_def say_disk Let_def)
  qed
  then show ?thesis using first by (simp add: w1_def)
qed




section \<open>Installing\<close>

lemma split_where_nonempty: "split_where P s \<noteq> []"
  by (induction s) (auto split: list.splits)

lemma split_where_append:
  "P s \<Longrightarrow> split_where P (a @ s # b) = split_where P a @ split_where P b"
proof (induction a)
  case Nil
  then show ?case by simp
next
  case (Cons c a)
  then show ?case
    using split_where_nonempty [of P a] by (cases "split_where P a") auto
qed

lemma norm_step_empty: "norm_step acc [] = acc"
  by (simp add: norm_step_def)

lemma comps_double_sep:
  assumes "is_sep s" and "is_sep t"
  shows "comps (a @ s # t # b) = comps (a @ s # b)"
proof -
  have "split_where is_sep (a @ s # t # b) = split_where is_sep a @ [] # split_where is_sep b"
    using assms by (simp add: split_where_append)
  moreover have "split_where is_sep (a @ s # b) = split_where is_sep a @ split_where is_sep b"
    using assms by (simp add: split_where_append)
  ultimately show ?thesis
    by (simp add: comps_def norm_step_empty)
qed

lemma item_dir_exists:
  "path_exists fs (item_dir g workshop_id)
   = path_exists fs (fmt_str (steamcmd_dir g) @ ''/steamapps/workshop/content/''
       @ fmt_int (game_app_id g) @ ''/'' @ str_int workshop_id)"
proof -
  have "comps ((fmt_str (steamcmd_dir g) @ ''/steamapps/workshop/content/''
       @ fmt_int (game_app_id g)) @ CHR ''/'' # CHR ''/'' # str_int workshop_id)
     = comps ((fmt_str (steamcmd_dir g) @ ''/steamapps/workshop/content/''
       @ fmt_int (game_app_id g)) @ CHR ''/'' # str_int workshop_id)"
    by (rule comps_double_sep) (simp_all add: is_sep_def)
  then show ?thesis
    by (simp add: path_exists_def lookup_def item_dir_def workshop_dir_def)
qed

text \<open>
  C6. An entry whose source directory, at the tool directory's
  \<open>steamapps/workshop/content/<game id>/<content id>\<close>, does not exist: the turn of
  the loop prints its line and does nothing else. It raises nothing, the tree is the same
  (so no link has been made), and \<open>install_mods\<close> goes on with the entries that follow.
  The program writes the path with two slashes before the content id; that is the same
  place.
\<close>

theorem absent_source_is_skipped:
  assumes "\<not> path_exists (disk w) (fmt_str (steamcmd_dir g) @ ''/steamapps/workshop/content/''
             @ fmt_int (game_app_id g) @ ''/'' @ str_int workshop_id)"
  shows "install_item limit g (workshop_id, mod_name) w
           = (None, say (''Attempting to install item: '' @ str_int workshop_id
                         @ '' ('' @ mod_name @ '')'') w)
         \<and> disk (say (''Attempting to install item: '' @ str_int workshop_id
                         @ '' ('' @ mod_name @ '')'') w) = disk w
         \<and> install_mods limit g ((workshop_id, mod_name) # rest) w
           = install_mods limit g rest
               (say (''Attempting to install item: '' @ str_int workshop_id
                     @ '' ('' @ mod_name @ '')'') w)"
proof -
  have d: "disk (say t w) = disk w" for t
    by (simp add: say_def)
  have "\<not> path_exists (disk w) (item_dir g workshop_id)"
    using assms by (simp add: item_dir_exists)
  then have i: "install_item limit g (workshop_id, mod_name) w
           = (None, say (''Attempting to install item: '' @ str_int workshop_id
                         @ '' ('' @ mod_name @ '')'') w)"
    by (simp add: install_item_def d Let_def)
  then show ?thesis
    by (simp add: install_mods_def d)
qed

theorem absent_source_is_skipped_witness:
  "\<not> path_exists workshop_tree (''C:/tools/steamapps/workshop/content/221100/7'')
   \<and> install_item 10 example_config (7, ''Missing'') \<lparr>disk = workshop_tree, console = []\<rparr>
       = (None, \<lparr>disk = workshop_tree,
                 console = [Print ''Attempting to install item: 7 (Missing)'']\<rparr>)"
proof -
  have e: "fmt_str (steamcmd_dir example_config) @ ''/steamapps/workshop/content/''
             @ fmt_int (game_app_id example_config) @ ''/'' @ str_int 7
           = ''C:/tools/steamapps/workshop/content/221100/7''"
    by code_simp
  have h: "\<not> path_exists workshop_tree (''C:/tools/steamapps/workshop/content/221100/7'')"
    by code_simp
  have s: "say (''Attempting to install item: '' @ str_int 7 @ '' ('' @ ''Missing'' @ '')'')
             \<lparr>disk = workshop_tree, console = []\<rparr>
           = \<lparr>disk = workshop_tree, console = [Print ''Attempting to install item: 7 (Missing)'']\<rparr>"
    by code_simp
  show ?thesis
    using absent_source_is_skipped
            [of "\<lparr>disk = workshop_tree, console = []\<rparr>" example_config 7 10 "''Missing''" "[]"]
          h
    unfolding e s by simp
qed

section \<open>Copying the keys\<close>

lemma same_kind_refl: "same_kind n n"
  by (cases n) (simp_all add: same_kind_def is_dir_node_def)

lemma same_kind_trans: "same_kind a b \<Longrightarrow> same_kind b c \<Longrightarrow> same_kind a c"
  by (cases a; cases b) (simp_all add: same_kind_def is_dir_node_def)

lemma keeps_refl: "keeps fs fs"
  by (simp add: keeps_def same_kind_refl)

lemma keeps_trans: "keeps a b \<Longrightarrow> keeps b c \<Longrightarrow> keeps a c"
  unfolding keeps_def by (meson same_kind_trans)

lemma adds_dirs_refl: "adds_dirs fs fs"
  by (simp add: adds_dirs_def keeps_refl)

lemma adds_dirs_trans: "adds_dirs a b \<Longrightarrow> adds_dirs b c \<Longrightarrow> adds_dirs a c"
  unfolding adds_dirs_def using keeps_trans by blast

lemma map_of_update: "map_of (AList.update k v es) k' = (if k' = k then Some v else map_of es k')"
  by (simp add: update_conv')

lemma put_absent_get:
  "get fs loc = None \<Longrightarrow> get fs q = Some n
   \<Longrightarrow> \<exists>n'. get (put loc new fs) q = Some n' \<and> same_kind n n'"
proof (induction loc arbitrary: fs q n)
  case Nil
  then show ?case by simp
next
  case (Cons c cs)
  show ?case
  proof (cases fs)
    case (File v)
    then show ?thesis using Cons.prems by (auto simp: same_kind_refl)
  next
    case (Link t)
    then show ?thesis using Cons.prems by (auto simp: same_kind_refl)
  next
    case (Dir es)
    show ?thesis
    proof (cases q)
      case Nil
      then show ?thesis using Cons.prems Dir
        by (auto simp: same_kind_def is_dir_node_def split: option.splits)
    next
      case (Cons d ds)
      obtain m where m: "map_of es d = Some m" "get m ds = Some n"
        using Cons.prems(2) Dir Cons by (auto split: option.splits)
      show ?thesis
      proof (cases "map_of es c")
        case None
        then have "d \<noteq> c" using m by auto
        then show ?thesis using None Dir Cons m
          by (auto simp: map_of_update same_kind_refl)
      next
        case (Some child)
        show ?thesis
        proof (cases "d = c")
          case True
          then have "get child cs = None" "get child ds = Some n"
            using Some m Cons.prems(1) Dir by auto
          then obtain n' where "get (put cs new child) ds = Some n'" "same_kind n n'"
            using Cons.IH by blast
          then show ?thesis using True Some Dir Cons
            by (auto simp: map_of_update)
        next
          case False
          then show ?thesis using Some Dir Cons m
            by (auto simp: map_of_update same_kind_refl)
        qed
      qed
    qed
  qed
qed

lemma put_absent_keeps: "get fs loc = None \<Longrightarrow> keeps fs (put loc new fs)"
  unfolding keeps_def using put_absent_get by blast

lemma put_dir_file_back:
  "get fs loc = None \<Longrightarrow> get (put loc (Dir []) fs) q = Some (File v) \<Longrightarrow> get fs q = Some (File v)"
proof (induction loc arbitrary: fs q)
  case Nil
  then show ?case by simp
next
  case (Cons c cs)
  show ?case
  proof (cases fs)
    case (File v)
    then show ?thesis using Cons.prems by auto
  next
    case (Link t)
    then show ?thesis using Cons.prems by auto
  next
    case (Dir es)
    show ?thesis
    proof (cases q)
      case Nil
      then show ?thesis using Cons.prems Dir by (auto split: option.splits if_splits)
    next
      case q: (Cons d ds)
      show ?thesis
      proof (cases "map_of es c")
        case None
        show ?thesis
        proof (cases "cs = []")
          case True
          then show ?thesis using None Dir q Cons.prems(2)
            by (cases ds) (auto simp: map_of_update split: if_splits option.splits)
        next
          case False
          then show ?thesis using None Dir q Cons.prems(2) by auto
        qed
      next
        case (Some child)
        show ?thesis
        proof (cases "d = c")
          case True
          then have "get child cs = None" "get (put cs (Dir []) child) ds = Some (File v)"
            using Some Cons.prems Dir q by (auto simp: map_of_update)
          then have "get child ds = Some (File v)"
            using Cons.IH by blast
          then show ?thesis using True Some Dir q by auto
        next
          case False
          then show ?thesis using Some Dir q Cons.prems(2)
            by (auto simp: map_of_update split: option.splits)
        qed
      qed
    qed
  qed
qed

lemma os_mkdir_adds_dirs: "os_mkdir fs loc = Inr fs' \<Longrightarrow> adds_dirs fs fs'"
  unfolding os_mkdir_def adds_dirs_def
  using put_absent_keeps put_dir_file_back by (auto split: if_splits)

lemma mkdirs_adds_dirs: "mkdirs fs loc = Inr fs' \<Longrightarrow> adds_dirs fs fs'"
proof (induction fs loc arbitrary: fs' rule: mkdirs.induct)
  case (1 fs loc)
  show ?case
  proof (cases "loc \<noteq> [] \<and> butlast loc \<noteq> [] \<and> get fs (butlast loc) = None")
    case True
    obtain fs1 where fs1: "(case mkdirs fs (butlast loc) of
                    Inl (FileExistsError x) \<Rightarrow> Inr fs
                  | r \<Rightarrow> r) = Inr fs1"
      and rest: "(case os_mkdir fs1 loc of
             Inr fs2 \<Rightarrow> Inr fs2
           | Inl e \<Rightarrow> (if dir_at fs1 loc then Inr fs1 else Inl e)) = Inr fs'"
      using "1.prems" True by (subst (asm) mkdirs.simps) (auto split: sum.splits)
    have "adds_dirs fs fs1"
      using fs1 "1.IH" True adds_dirs_refl
      by (auto split: sum.splits error.splits)
    moreover have "adds_dirs fs1 fs'"
      using rest os_mkdir_adds_dirs adds_dirs_refl by (auto split: sum.splits if_splits)
    ultimately show ?thesis using adds_dirs_trans by blast
  next
    case False
    then have "(case os_mkdir fs loc of
             Inr fs2 \<Rightarrow> Inr fs2
           | Inl e \<Rightarrow> (if dir_at fs loc then Inr fs else Inl e)) = Inr fs'"
      using "1.prems" by (subst (asm) mkdirs.simps) (auto split: sum.splits)
    then show ?thesis
      using os_mkdir_adds_dirs adds_dirs_refl by (auto split: sum.splits if_splits)
  qed
qed


lemma split_pieces_no_sep: "p \<in> set (split_where P s) \<Longrightarrow> c \<in> set p \<Longrightarrow> \<not> P c"
proof (induction s arbitrary: p)
  case Nil
  then show ?case by simp
next
  case (Cons x xs)
  show ?case
  proof (cases "P x")
    case True
    then show ?thesis using Cons by auto
  next
    case False
    obtain q qs where q: "split_where P xs = q # qs"
      using split_where_nonempty [of P xs] by (cases "split_where P xs") auto
    then have "p = x # q \<or> p \<in> set qs" using Cons.prems(1) False by auto
    then show ?thesis
    proof
      assume "p = x # q"
      then show ?thesis using Cons.IH [of q] Cons.prems(2) q False by auto
    next
      assume "p \<in> set qs"
      then show ?thesis using Cons.IH [of p] Cons.prems(2) q by auto
    qed
  qed
qed

lemma basename_no_sep: "c \<in> set (basename p) \<Longrightarrow> \<not> is_sep c"
  unfolding basename_def
  using split_pieces_no_sep [of "last (split_where is_sep p)" is_sep p c]
        split_where_nonempty [of is_sep p] by simp

lemma split_where_no_sep: "(\<And>c. c \<in> set b \<Longrightarrow> \<not> P c) \<Longrightarrow> split_where P b = [b]"
  by (induction b) auto

lemma comps_snoc:
  assumes "is_sep s" and "\<And>c. c \<in> set b \<Longrightarrow> \<not> is_sep c"
  shows "comps (a @ s # b) = norm_step (comps a) b"
  using assms by (simp add: comps_def split_where_append split_where_no_sep)

lemma comps_trailing_sep: "is_sep s \<Longrightarrow> comps (a @ [s]) = comps a"
  using comps_snoc [of s "[]" a] by (simp add: norm_step_empty)

lemma comps_path_join:
  assumes "dst \<noteq> []" and b: "\<And>c. c \<in> set b \<Longrightarrow> \<not> is_sep c"
  shows "comps (path_join dst b) = norm_step (comps dst) b"
proof -
  have hd: "\<not> (b \<noteq> [] \<and> is_sep (hd b))"
    using b [of "hd b"] by auto
  show ?thesis
  proof (cases "is_sep (last dst)")
    case True
    have "comps (butlast dst @ last dst # b) = norm_step (comps (butlast dst)) b"
      using True b by (rule comps_snoc)
    moreover have "comps (butlast dst @ [last dst]) = comps (butlast dst)"
      using True by (rule comps_trailing_sep)
    moreover have "butlast dst @ last dst # b = dst @ b"
      using assms(1) by (metis append.assoc append_Cons append_Nil append_butlast_last_id)
    moreover have "path_join dst b = dst @ b"
      using True hd by (auto simp: path_join_def)
    ultimately show ?thesis by simp
  next
    case False
    have "is_sep (CHR ''/'')" by (simp add: is_sep_def)
    then have "comps (dst @ CHR ''/'' # b) = norm_step (comps dst) b"
      using b by (rule comps_snoc)
    moreover have "path_join dst b = dst @ CHR ''/'' # b"
      using False hd assms(1) by (auto simp: path_join_def)
    ultimately show ?thesis by simp
  qed
qed

lemma get_snoc_parent: "get fs (xs @ [x]) = Some n \<Longrightarrow> \<exists>es. get fs xs = Some (Dir es)"
proof (induction xs arbitrary: fs)
  case Nil
  then show ?case by (cases fs) auto
next
  case (Cons a xs)
  then show ?case by (cases fs) (auto split: option.splits)
qed

lemma write_file_result:
  assumes "write_file fs p v = Inr fs'"
  shows "p \<noteq> [] \<and> fs' = put (comps p) (File v) fs
         \<and> (get fs (comps p) = None \<or> (\<exists>u. get fs (comps p) = Some (File u)))"
  using assms unfolding write_file_def
  by (auto split: if_splits option.splits node.splits)

lemma copy2_keeps:
  assumes absent: "\<not> path_exists fs dst" and grown: "adds_dirs fs fs1"
    and copy: "copy2 fs1 src dst = Inr fs2"
  shows "keeps fs1 fs2"
proof -
  define dst' where "dst' = (if isdir fs1 dst then path_join dst (basename src) else dst)"
  obtain v where w: "write_file fs1 dst' v = Inr fs2"
    using copy unfolding copy2_def dst'_def Let_def
    by (auto split: option.splits node.splits if_splits)
  have res: "dst' \<noteq> []" "fs2 = put (comps dst') (File v) fs1"
    "get fs1 (comps dst') = None \<or> (\<exists>u. get fs1 (comps dst') = Some (File u))"
    using write_file_result [OF w] by auto
  have bwd: "get fs1 q = Some (File u) \<Longrightarrow> get fs q = Some (File u)" for q u
    using grown unfolding adds_dirs_def by blast
  have fwd: "get fs q = Some (File u) \<Longrightarrow> get fs1 q = Some (File u)" for q u
    using grown unfolding adds_dirs_def keeps_def same_kind_def by fastforce
  have nofile: "get fs1 (comps dst') \<noteq> Some (File u)" for u
  proof
    assume f1: "get fs1 (comps dst') = Some (File u)"
    then have f: "get fs (comps dst') = Some (File u)" by (rule bwd)
    show False
    proof (cases "isdir fs1 dst")
      case False
      then have "dst' = dst" by (simp add: dst'_def)
      then show False using f res(1) absent by (simp add: path_exists_def lookup_def)
    next
      case True
      then have ne: "dst \<noteq> []" and d1: "get fs1 (comps dst) \<noteq> None"
        by (auto simp: isdir_def lookup_def split: if_splits option.splits)
      have a: "get fs (comps dst) = None"
        using absent ne by (simp add: path_exists_def lookup_def)
      have "comps dst' = norm_step (comps dst) (basename src)"
        using True ne basename_no_sep by (simp add: dst'_def comps_path_join)
      then consider "comps dst' = comps dst" | "comps dst' = butlast (comps dst)"
        | "comps dst' = comps dst @ [basename src]"
        by (auto simp: norm_step_def split: if_splits)
      then show False
      proof cases
        case 1
        then show False using f a by simp
      next
        case 2
        show False
        proof (cases "comps dst" rule: rev_cases)
          case Nil
          then show False using 2 f a by simp
        next
          case (snoc xs x)
          then obtain es where "get fs1 xs = Some (Dir es)"
            using d1 get_snoc_parent [of fs1 xs x] by auto
          moreover have "get fs1 xs = Some (File u)"
            using f 2 snoc fwd by simp
          ultimately show False by simp
        qed
      next
        case 3
        then show False using f a get_snoc_parent [of fs "comps dst" "basename src"] by auto
      qed
    qed
  qed
  then have "get fs1 (comps dst') = None" using res(3) by auto
  then show ?thesis using res(2) put_absent_keeps by simp
qed

lemma copy_if_absent_keeps:
  assumes "copy_if_absent source_dir destination_dir root file fs = (r, fs')"
  shows "keeps fs fs'"
proof (cases "relpath (path_join root file) source_dir")
  case (Inl e)
  then show ?thesis using assms by (simp add: copy_if_absent_def keeps_refl)
next
  case (Inr rel)
  define dst where "dst = path_join destination_dir rel"
  show ?thesis
  proof (cases "path_exists fs dst")
    case True
    then show ?thesis using assms Inr by (simp add: copy_if_absent_def dst_def keeps_refl)
  next
    case False
    show ?thesis
    proof (cases "os_makedirs fs (dirname dst)")
      case (Inl e)
      then show ?thesis using assms Inr False
        by (simp add: copy_if_absent_def dst_def [symmetric] keeps_refl)
    next
      case mk: (Inr fs1)
      then have g: "adds_dirs fs fs1"
        using mkdirs_adds_dirs by (auto simp: os_makedirs_def split: if_splits)
      then have k: "keeps fs fs1" by (simp add: adds_dirs_def)
      show ?thesis
      proof (cases "copy2 fs1 (path_join root file) dst")
        case (Inl e)
        then show ?thesis using assms Inr False mk k
          by (simp add: copy_if_absent_def dst_def [symmetric])
      next
        case c: (Inr fs2)
        then have "keeps fs1 fs2" using False g by (rule copy2_keeps [rotated 2])
        then show ?thesis using assms Inr False mk c k keeps_trans
          by (auto simp: copy_if_absent_def dst_def [symmetric])
      qed
    qed
  qed
qed

lemma for_each_keeps:
  assumes "\<And>x s r s'. body x s = (r, s') \<Longrightarrow> keeps s s'"
  shows "for_each body xs s = (r, s') \<Longrightarrow> keeps s s'"
proof (induction xs arbitrary: s)
  case Nil
  then show ?case by (simp add: keeps_refl)
next
  case (Cons x xs)
  obtain r1 s1 where b: "body x s = (r1, s1)" by (cases "body x s")
  then have k: "keeps s s1" by (rule assms)
  show ?case
  proof (cases r1)
    case None
    then have "for_each body xs s1 = (r, s')" using Cons.prems b by simp
    then show ?thesis using Cons.IH k keeps_trans by blast
  next
    case (Some e)
    then show ?thesis using Cons.prems b k by simp
  qed
qed

lemma os_walk_files_keeps:
  assumes "\<And>root file s r s'. body root file s = (r, s') \<Longrightarrow> keeps s s'"
  shows "os_walk_files k body here fs = (r, fs') \<Longrightarrow> keeps fs fs'"
proof (induction k arbitrary: here fs r fs')
  case 0
  then show ?case by (simp add: keeps_refl)
next
  case (Suc k)
  show ?case
  proof (cases "lookup fs here")
    case None
    then show ?thesis using Suc.prems by (simp add: keeps_refl)
  next
    case (Some n)
    show ?thesis
    proof (cases n)
      case (File v)
      then show ?thesis using Suc.prems Some by (simp add: keeps_refl)
    next
      case (Link t)
      then show ?thesis using Suc.prems Some by (simp add: keeps_refl)
    next
      case (Dir es)
      obtain r1 fs1 where f: "for_each (body here) (files_of es) fs = (r1, fs1)"
        by (cases "for_each (body here) (files_of es) fs")
      have k1: "keeps fs fs1"
        using f assms by (rule for_each_keeps [rotated])
      show ?thesis
      proof (cases r1)
        case (Some e)
        then show ?thesis using Suc.prems \<open>lookup fs here = Some n\<close> Dir f k1 by simp
      next
        case None
        then have d: "for_each (\<lambda>d. os_walk_files k body (path_join here d)) (dirs_of es) fs1 = (r, fs')"
          using Suc.prems \<open>lookup fs here = Some n\<close> Dir f by simp
        have "keeps fs1 fs'"
          using d Suc.IH by (rule for_each_keeps [rotated])
        then show ?thesis using k1 keeps_trans by blast
      qed
    qed
  qed
qed

text \<open>
  C7. Whatever \<open>quick_copy_recursive\<close> does, and whether it returns or raises part of
  the way, every file of the tree it started from is a file with the same contents in the
  tree it leaves: no destination that was there is written over. A file of the tree it
  leaves is either such an old file or stands where nothing stood before: copies go only
  to destinations that were absent.
\<close>

theorem quick_copy_recursive_keeps_files:
  assumes "quick_copy_recursive limit source_dir destination_dir fs = (r, fs')"
  shows "(get fs loc = Some (File v) \<longrightarrow> get fs' loc = Some (File v))
         \<and> (get fs' loc = Some (File v) \<longrightarrow> get fs loc = Some (File v) \<or> get fs loc = None)"
proof -
  have k: "keeps fs fs'"
    using assms copy_if_absent_keeps unfolding quick_copy_recursive_def
    by (rule os_walk_files_keeps [rotated])
  have "get fs' loc = Some (File v)" if "get fs loc = Some (File v)"
    using k that unfolding keeps_def same_kind_def by fastforce
  moreover have "get fs loc = Some (File v) \<or> get fs loc = None" if f: "get fs' loc = Some (File v)"
  proof (cases "get fs loc")
    case None
    then show ?thesis by simp
  next
    case (Some n)
    then obtain n' where "get fs' loc = Some n'" "same_kind n n'"
      using k unfolding keeps_def by blast
    then show ?thesis using f Some
      by (cases n) (auto simp: same_kind_def is_dir_node_def)
  qed
  ultimately show ?thesis by blast
qed

theorem quick_copy_recursive_keeps_files_witness:
  "get workshop_tree [''C:'', ''server'', ''keys'', ''A.bikey''] = Some (File ''old key'')
   \<and> get (snd (quick_copy_recursive 10 ''C:/tools/steamapps/workshop/content/221100//1/keys''
                  ''C:/server/keys'' workshop_tree))
         [''C:'', ''server'', ''keys'', ''A.bikey''] = Some (File ''old key'')
   \<and> get (snd (quick_copy_recursive 10 ''C:/tools/steamapps/workshop/content/221100//1/keys''
                  ''C:/server/keys'' workshop_tree))
         [''C:'', ''server'', ''keys'', ''more'', ''B.bikey''] = Some (File ''other key'')"
proof -
  have h: "get workshop_tree [''C:'', ''server'', ''keys'', ''A.bikey''] = Some (File ''old key'')"
    by code_simp
  have c: "get (snd (quick_copy_recursive 10 ''C:/tools/steamapps/workshop/content/221100//1/keys''
                  ''C:/server/keys'' workshop_tree))
         [''C:'', ''server'', ''keys'', ''more'', ''B.bikey''] = Some (File ''other key'')"
    by code_simp
  have "quick_copy_recursive 10 ''C:/tools/steamapps/workshop/content/221100//1/keys''
          ''C:/server/keys'' workshop_tree
        = (fst (quick_copy_recursive 10 ''C:/tools/steamapps/workshop/content/221100//1/keys''
                  ''C:/server/keys'' workshop_tree),
           snd (quick_copy_recursive 10 ''C:/tools/steamapps/workshop/content/221100//1/keys''
                  ''C:/server/keys'' workshop_tree))"
    by simp
  from quick_copy_recursive_keeps_files
         [OF this, of "[''C:'', ''server'', ''keys'', ''A.bikey'']" "''old key''"] h c
  show ?thesis by blast
qed

end
